theory Spec2Isabelle
  imports Complex_Main "HOL-Library.Word"
begin

unbundle bit_operations_syntax

section \<open>Footstep planner: planning states\<close>

text \<open>
  The development follows \<^verbatim>\<open>PlanningState.cpp\<close> and \<^verbatim>\<open>FootstepPlanner.cpp\<close>.
  C++ \<^verbatim>\<open>int\<close> and \<^verbatim>\<open>unsigned int\<close> are 32-bit words (the conversions between
  the two keep the bits). A \<^verbatim>\<open>double\<close> or \<^verbatim>\<open>float\<close> value is read as the real number it
  denotes; the operations of \<^verbatim>\<open>getFootPosition\<close>, whose results round, are parameters of
  the model, the foot radius and the path cost are computed without rounding.
  A failed \<^verbatim>\<open>assert\<close>, a division by zero, an OpenCV size check and an access
  outside a matrix or through a null pointer end the call with an \<open>error\<close>.
\<close>

datatype error =
    AssertionFailed
  | DivisionByZero
  | NullPointer
  | SizeMismatch
  | MatIndexOutOfRange

datatype Leg = RIGHT | LEFT | NOLEG

text \<open>
  The continuous \<^verbatim>\<open>State\<close> has the members \<^verbatim>\<open>x\<close>, \<^verbatim>\<open>y\<close>, \<^verbatim>\<open>theta\<close> and \<^verbatim>\<open>leg\<close>;
  the selectors carry the prefix \<open>st_\<close> so that \<open>x\<close> and \<open>y\<close> stay free for variables.
\<close>

record State =
  st_x :: real
  st_y :: real
  st_theta :: real
  st_leg :: Leg

record PlanningState =
  ivX :: "32 word"
  ivY :: "32 word"
  ivTheta :: "32 word"
  ivLeg :: Leg
  ivId :: "32 word"
  ivHashTag :: "32 word"

text \<open>
  \<^verbatim>\<open>helper.h\<close> is not among the sources. What \<^verbatim>\<open>PlanningState.cpp\<close> calls from it
  is a parameter of the model: the integer hash, the integer value of a \<^verbatim>\<open>Leg\<close>
  enumerator, and the two discretisations.
\<close>

record helper =
  int_hash :: "32 word \<Rightarrow> 32 word"
  leg_2_int :: "Leg \<Rightarrow> 32 word"
  state_2_cell :: "real \<Rightarrow> real \<Rightarrow> 32 word"
  angle_state_2_cell :: "real \<Rightarrow> 32 word \<Rightarrow> 32 word"

text \<open>
  \<^verbatim>\<open>calculateHashTag\<close> reads the four members of the object under construction.
  The sum is an \<^verbatim>\<open>unsigned int\<close> and wraps; \<^verbatim>\<open>%\<close> converts \<^verbatim>\<open>max_hash_size\<close> to
  \<^verbatim>\<open>unsigned int\<close> and traps on zero.
\<close>

definition calculateHashTag ::
  "helper \<Rightarrow> 32 word \<Rightarrow> 32 word \<Rightarrow> 32 word \<Rightarrow> Leg \<Rightarrow> 32 word \<Rightarrow> error + 32 word" where
  "calculateHashTag h cx cy ct l max_hash_size =
     (if max_hash_size = 0 then Inl DivisionByZero
      else Inr (int_hash h (push_bit 3 (int_hash h cx) + push_bit 2 (int_hash h cy) +
                            push_bit 1 (int_hash h ct) + int_hash h (leg_2_int h l))
                mod max_hash_size))"

text \<open>
  The constructor from raw doubles: the member initialisers run (the hash tag last, the
  members being declared in the order of the initialiser lists), then the body asserts
  \<^verbatim>\<open>false\<close>.
\<close>

definition PlanningState_of_doubles ::
  "helper \<Rightarrow> real \<Rightarrow> real \<Rightarrow> real \<Rightarrow> Leg \<Rightarrow> real \<Rightarrow> 32 word \<Rightarrow> 32 word
     \<Rightarrow> error + PlanningState" where
  "PlanningState_of_doubles h wx wy wt l cell_size num_angle_bins max_hash_size =
     (case calculateHashTag h (state_2_cell h wx cell_size) (state_2_cell h wy cell_size)
             (angle_state_2_cell h wt num_angle_bins) l max_hash_size of
        Inl e \<Rightarrow> Inl e
      | Inr tag \<Rightarrow> Inl AssertionFailed)"

text \<open>
  The constructor from integer fields has no initialiser for \<^verbatim>\<open>ivId\<close>: the member keeps
  whatever its storage held, the parameter \<open>stale\<close>.
\<close>

definition PlanningState_of_cells ::
  "helper \<Rightarrow> 32 word \<Rightarrow> 32 word \<Rightarrow> 32 word \<Rightarrow> 32 word \<Rightarrow> Leg \<Rightarrow> real \<Rightarrow> 32 word \<Rightarrow> 32 word
     \<Rightarrow> error + PlanningState" where
  "PlanningState_of_cells h stale cx cy ct l cell_size num_angle_bins max_hash_size =
     (case calculateHashTag h cx cy ct l max_hash_size of
        Inl e \<Rightarrow> Inl e
      | Inr tag \<Rightarrow>
          Inr \<lparr>ivX = cx, ivY = cy, ivTheta = ct, ivLeg = l, ivId = stale, ivHashTag = tag\<rparr>)"

definition PlanningState_of_State ::
  "helper \<Rightarrow> State \<Rightarrow> real \<Rightarrow> 32 word \<Rightarrow> 32 word \<Rightarrow> error + PlanningState" where
  "PlanningState_of_State h s cell_size num_angle_bins max_hash_size =
     (let cx = state_2_cell h (st_x s) cell_size;
          cy = state_2_cell h (st_y s) cell_size;
          ct = angle_state_2_cell h (st_theta s) num_angle_bins
      in case calculateHashTag h cx cy ct (st_leg s) max_hash_size of
           Inl e \<Rightarrow> Inl e
         | Inr tag \<Rightarrow>
             Inr \<lparr>ivX = cx, ivY = cy, ivTheta = ct, ivLeg = st_leg s, ivId = - 1,
                  ivHashTag = tag\<rparr>)"

definition PlanningState_copy :: "PlanningState \<Rightarrow> PlanningState" where
  "PlanningState_copy s =
     \<lparr>ivX = ivX s, ivY = ivY s, ivTheta = ivTheta s, ivLeg = ivLeg s, ivId = ivId s,
      ivHashTag = ivHashTag s\<rparr>"

definition ps_eq :: "PlanningState \<Rightarrow> PlanningState \<Rightarrow> bool" where
  "ps_eq s1 s2 =
     (if ivHashTag s1 \<noteq> ivHashTag s2 then False
      else (ivX s1 = ivX s2 \<and> ivY s1 = ivY s2 \<and> ivTheta s1 = ivTheta s2 \<and>
            ivLeg s1 = ivLeg s2))"

definition ps_neq :: "PlanningState \<Rightarrow> PlanningState \<Rightarrow> bool" where
  "ps_neq s1 s2 = (\<not> ps_eq s1 s2)"

section \<open>Footstep planner: the planner object\<close>

text \<open>
  An OpenCV matrix of \<^verbatim>\<open>uchar\<close>: its size and its pixels by row and column.
  \<^verbatim>\<open>Mat::at\<close> is taken at its contract, an index outside the matrix is an error
  (a build without the range check would read through the raw pointer).
\<close>

record Mat =
  mat_rows :: nat
  mat_cols :: nat
  px :: "nat \<Rightarrow> nat \<Rightarrow> 8 word"

definition mat_at :: "Mat \<Rightarrow> nat \<Rightarrow> nat \<Rightarrow> error + 8 word" where
  "mat_at m i j =
     (if i < mat_rows m \<and> j < mat_cols m then Inr (px m i j) else Inl MatIndexOutOfRange)"

definition bitwise_xor :: "Mat \<Rightarrow> Mat \<Rightarrow> error + Mat" where
  "bitwise_xor a b =
     (if mat_rows a = mat_rows b \<and> mat_cols a = mat_cols b
      then Inr \<lparr>mat_rows = mat_rows a, mat_cols = mat_cols a,
                px = (\<lambda>i j. px a i j XOR px b i j)\<rparr>
      else Inl SizeMismatch)"

definition bitwise_not :: "Mat \<Rightarrow> Mat" where
  "bitwise_not a = \<lparr>mat_rows = mat_rows a, mat_cols = mat_cols a, px = (\<lambda>i j. NOT (px a i j))\<rparr>"

text \<open>
  \<^verbatim>\<open>cv::distanceTransform\<close> with \<^verbatim>\<open>CV_DIST_L2\<close> and the precise mask: for every pixel
  the Euclidean distance to the nearest zero pixel. A mask without a zero pixel gets
  \<open>None\<close>, which stands for the large finite value OpenCV writes then.
\<close>

definition zero_pixels :: "Mat \<Rightarrow> (nat \<times> nat) list" where
  "zero_pixels m =
     concat (map (\<lambda>i. map (\<lambda>j. (i, j)) (filter (\<lambda>j. px m i j = 0) [0..<mat_cols m]))
                 [0..<mat_rows m])"

definition euclid :: "nat \<times> nat \<Rightarrow> nat \<times> nat \<Rightarrow> real" where
  "euclid p q =
     sqrt (real_of_int ((int (fst p) - int (fst q))\<^sup>2 + (int (snd p) - int (snd q))\<^sup>2))"

definition distanceTransform :: "Mat \<Rightarrow> nat \<Rightarrow> nat \<Rightarrow> real option" where
  "distanceTransform m i j =
     (case map (euclid (i, j)) (zero_pixels m) of
        [] \<Rightarrow> None
      | d # ds \<Rightarrow> Some (fold min ds d))"

text \<open>
  The radius is a quotient of doubles. Dividing by a zero resolution gives infinity,
  or no number at all when the numerator is zero as well; a comparison with the latter
  is false.
\<close>

datatype bound = Within real | Unbounded | Unordered

definition le_bound :: "real option \<Rightarrow> bound \<Rightarrow> bool" where
  "le_bound d b =
     (case b of
        Within r \<Rightarrow> (case d of None \<Rightarrow> False | Some v \<Rightarrow> v \<le> r)
      | Unbounded \<Rightarrow> True
      | Unordered \<Rightarrow> False)"

text \<open>
  What the planner reads of a \<^verbatim>\<open>GridMap2D\<close>: the resolution, the height and width of
  \<^verbatim>\<open>size()\<close>, and the binary map (0 for an occupied cell, 255 for a free one).
\<close>

record GridMap2D =
  getResolution :: real
  size_height :: int
  size_width :: int
  binaryMap :: Mat

text \<open>
  The planner object. \<open>'env\<close> is the state of the \<^verbatim>\<open>FootstepPlannerEnvironment\<close>,
  \<open>'pl\<close> the state of the SBPL search behind \<^verbatim>\<open>ivPlannerPtr\<close>; the publishers and
  the members only they read are left out.
\<close>

record ('env, 'pl) FootstepPlanner =
  ivPlannerEnvironmentPtr :: 'env
  ivPlannerPtr :: 'pl
  ivMapPtr :: "GridMap2D option"
  ivPath :: "State list"
  ivStartFootLeft :: State
  ivStartFootRight :: State
  ivGoalFootLeft :: State
  ivGoalFootRight :: State
  ivStartPoseSetUp :: bool
  ivGoalPoseSetUp :: bool
  ivPlanExists :: bool
  ivFootSeparation :: real
  ivOriginFootShiftX :: real
  ivOriginFootShiftY :: real
  ivFootsizeX :: real
  ivFootsizeY :: real
  ivNumAngleBins :: int
  ivPlannerType :: string
  ivForwardSearch :: bool
  ivSearchUntilFirstSolution :: bool
  ivInitialEpsilon :: real
  ivMaxSearchTime :: real
  ivChangedCellsLimit :: "32 word"
  ivPathCost :: real
  ivLastMarkerMsgSize :: int

text \<open>
  The environment, the search library, \<^verbatim>\<open>GridMap2D\<close> and \<^verbatim>\<open>helper.h\<close> are not among the
  sources. Their operations are parameters of the model, each a function of the state
  it reads and, where it may write, returning the new state. So are the operations of
  double arithmetic that \<^verbatim>\<open>getFootPosition\<close> performs: the sum, product and quotient of
  two doubles and the sine and cosine of the C library, each giving the double the
  machine rounds to. Negating a double does not round.
\<close>

record ('env, 'pl) collaborators =
  env_setUp :: "State \<Rightarrow> State \<Rightarrow> State \<Rightarrow> State \<Rightarrow> 'env \<Rightarrow> 'env"
  env_InitializeMDPCfg :: "'env \<Rightarrow> int \<times> int"
  env_getState :: "'env \<Rightarrow> int \<Rightarrow> State option"
  env_occupied :: "'env \<Rightarrow> State \<Rightarrow> bool"
  env_reset :: "'env \<Rightarrow> 'env"
  env_getSuccsOfGridCells :: "'env \<Rightarrow> State list \<Rightarrow> int list \<times> 'env"
  env_getPredsOfGridCells :: "'env \<Rightarrow> State list \<Rightarrow> int list \<times> 'env"
  cvMmScale :: int
  new_planner :: "string \<Rightarrow> 'env \<Rightarrow> bool \<Rightarrow> 'pl"
  pl_set_start :: "int \<Rightarrow> 'pl \<Rightarrow> int \<times> 'pl"
  pl_set_goal :: "int \<Rightarrow> 'pl \<Rightarrow> int \<times> 'pl"
  pl_set_initialsolution_eps :: "real \<Rightarrow> 'pl \<Rightarrow> 'pl"
  pl_set_search_mode :: "bool \<Rightarrow> 'pl \<Rightarrow> 'pl"
  pl_replan :: "real \<Rightarrow> 'env \<Rightarrow> 'pl \<Rightarrow> (int \<times> int list \<times> int) \<times> 'env \<times> 'pl"
  pl_costs_changed :: "int list \<Rightarrow> 'pl \<Rightarrow> 'pl"
  mapToWorld :: "GridMap2D \<Rightarrow> nat \<Rightarrow> nat \<Rightarrow> real \<times> real"
  angle_cell_2_state :: "int \<Rightarrow> int \<Rightarrow> real"
  default_State :: State
  dbl_add :: "real \<Rightarrow> real \<Rightarrow> real"
  dbl_mul :: "real \<Rightarrow> real \<Rightarrow> real"
  dbl_div :: "real \<Rightarrow> real \<Rightarrow> real"
  dbl_sin :: "real \<Rightarrow> real"
  dbl_cos :: "real \<Rightarrow> real"

definition setupPlanner ::
  "('env, 'pl) collaborators \<Rightarrow> ('env, 'pl) FootstepPlanner \<Rightarrow> ('env, 'pl) FootstepPlanner" where
  "setupPlanner c p =
     (if ivPlannerType p = ''ARAPlanner''
      then p\<lparr>ivPlannerPtr :=
               new_planner c ''ARAPlanner'' (ivPlannerEnvironmentPtr p) (ivForwardSearch p)\<rparr>
      else if ivPlannerType p = ''ADPlanner''
      then p\<lparr>ivPlannerPtr :=
               new_planner c ''ADPlanner'' (ivPlannerEnvironmentPtr p) (ivForwardSearch p)\<rparr>
      else if ivPlannerType p = ''RSTARPlanner''
      then p\<lparr>ivPlannerPtr :=
               new_planner c ''RSTARPlanner'' (ivPlannerEnvironmentPtr p) (ivForwardSearch p)\<rparr>
      else p)"

text \<open>
  \<^verbatim>\<open>extractSolution\<close>: the stored path is cleared first; the loop appends one pose per
  id and, at the first id that \<^verbatim>\<open>getState\<close> cannot resolve, clears the path again and
  gives up.
\<close>

fun extract_loop ::
  "('env, 'pl) collaborators \<Rightarrow> 'env \<Rightarrow> int list \<Rightarrow> State list \<Rightarrow> bool \<times> State list" where
  "extract_loop c e [] path = (True, path)"
| "extract_loop c e (i # ids) path =
     (case env_getState c e i of
        None \<Rightarrow> (False, [])
      | Some s \<Rightarrow> extract_loop c e ids (path @ [s]))"

definition extractSolution ::
  "('env, 'pl) collaborators \<Rightarrow> ('env, 'pl) FootstepPlanner \<Rightarrow> int list
     \<Rightarrow> bool \<times> ('env, 'pl) FootstepPlanner" where
  "extractSolution c p state_ids =
     (let p0 = p\<lparr>ivPath := []\<rparr>;
          r = extract_loop c (ivPlannerEnvironmentPtr p0) state_ids (ivPath p0)
      in (fst r, p0\<lparr>ivPath := snd r\<rparr>))"

text \<open>
  Of the visualisation only \<^verbatim>\<open>broadcastFootstepPathVis\<close> writes a member: the number of
  markers it published (start foot, path, deletions of stale markers, goal foot).
\<close>

definition broadcastFootstepPathVis ::
  "('env, 'pl) FootstepPlanner \<Rightarrow> ('env, 'pl) FootstepPlanner" where
  "broadcastFootstepPathVis p =
     (if length (ivPath p) = 0 then p
      else
        let markers_counter = 1 + int (length (ivPath p));
            deleted = (if markers_counter < ivLastMarkerMsgSize p
                       then ivLastMarkerMsgSize p - markers_counter else 0)
        in p\<lparr>ivLastMarkerMsgSize := markers_counter + deleted + 1\<rparr>)"

text \<open>
  \<^verbatim>\<open>run\<close>: the environment is set up with the four feet and names the start and goal
  ids; the search gets them, the initial epsilon and the search mode, and is run for the
  allotted time. A solution with at least one id is extracted into the path. Logging,
  \<^verbatim>\<open>InitializeEnv\<close> (which does nothing), the hash statistics and the publishers that
  write no member are left out.
\<close>

definition run ::
  "('env, 'pl) collaborators \<Rightarrow> ('env, 'pl) FootstepPlanner
     \<Rightarrow> bool \<times> ('env, 'pl) FootstepPlanner" where
  "run c p =
     (let e1 = env_setUp c (ivStartFootLeft p) (ivStartFootRight p)
                 (ivGoalFootLeft p) (ivGoalFootRight p) (ivPlannerEnvironmentPtr p);
          mdp_config = env_InitializeMDPCfg c e1;
          r1 = pl_set_start c (fst mdp_config) (ivPlannerPtr p)
      in if fst r1 = 0
         then (False, p\<lparr>ivPlannerEnvironmentPtr := e1, ivPlannerPtr := snd r1\<rparr>)
         else
           let r2 = pl_set_goal c (snd mdp_config) (snd r1)
           in if fst r2 = 0
              then (False, p\<lparr>ivPlannerEnvironmentPtr := e1, ivPlannerPtr := snd r2\<rparr>)
              else
                let pl3 = pl_set_initialsolution_eps c (ivInitialEpsilon p) (snd r2);
                    pl4 = pl_set_search_mode c (ivSearchUntilFirstSolution p) pl3;
                    r = pl_replan c (ivMaxSearchTime p) e1 pl4;
                    ret = fst (fst r);
                    solution_state_ids = fst (snd (fst r));
                    path_cost = snd (snd (fst r));
                    p1 = p\<lparr>ivPlannerEnvironmentPtr := fst (snd r),
                           ivPlannerPtr := snd (snd r),
                           ivPathCost := real_of_int path_cost / real_of_int (cvMmScale c)\<rparr>
                in if ret \<noteq> 0 \<and> length solution_state_ids > 0
                   then
                     let x = extractSolution c p1 solution_state_ids;
                         p2 = (snd x)\<lparr>ivPlanExists := fst x\<rparr>
                     in if \<not> ivPlanExists p2 then (False, p2)
                        else (True, broadcastFootstepPathVis p2)
                   else (False, p1))"

definition plan ::
  "('env, 'pl) collaborators \<Rightarrow> ('env, 'pl) FootstepPlanner
     \<Rightarrow> bool \<times> ('env, 'pl) FootstepPlanner" where
  "plan c p =
     (if ivMapPtr p = None then (False, p)
      else if \<not> ivGoalPoseSetUp p \<or> \<not> ivStartPoseSetUp p then (False, p)
      else run c (setupPlanner c
                   (p\<lparr>ivPlannerEnvironmentPtr := env_reset c (ivPlannerEnvironmentPtr p)\<rparr>)))"

definition replan ::
  "('env, 'pl) collaborators \<Rightarrow> ('env, 'pl) FootstepPlanner
     \<Rightarrow> bool \<times> ('env, 'pl) FootstepPlanner" where
  "replan c p =
     (if ivMapPtr p = None then (False, p)
      else if \<not> ivGoalPoseSetUp p \<or> \<not> ivStartPoseSetUp p then (False, p)
      else run c p)"

text \<open>
  \<^verbatim>\<open>getFootPosition\<close>: \<^verbatim>\<open>-sin(theta) * ivFootSeparation/2\<close> is the quotient by 2 of the
  product of the negated sine and the separation; the sign is 1.0 for the left foot and
  -1.0 for any other side.
\<close>

definition getFootPosition ::
  "('env, 'pl) collaborators \<Rightarrow> ('env, 'pl) FootstepPlanner \<Rightarrow> State \<Rightarrow> Leg \<Rightarrow> State" where
  "getFootPosition c p robot side =
     (let shift_x = dbl_div c (dbl_mul c (- dbl_sin c (st_theta robot)) (ivFootSeparation p)) 2;
          shift_y = dbl_div c (dbl_mul c (dbl_cos c (st_theta robot)) (ivFootSeparation p)) 2;
          sign = (if side = LEFT then 1 else - 1)
      in \<lparr>st_x = dbl_add c (st_x robot) (dbl_mul c sign shift_x),
          st_y = dbl_add c (st_y robot) (dbl_mul c sign shift_y),
          st_theta = st_theta robot, st_leg = side\<rparr>)"

definition setGoal ::
  "('env, 'pl) collaborators \<Rightarrow> ('env, 'pl) FootstepPlanner \<Rightarrow> real \<Rightarrow> real \<Rightarrow> real
     \<Rightarrow> bool \<times> ('env, 'pl) FootstepPlanner" where
  "setGoal c p gx gy gtheta =
     (if ivMapPtr p = None then (False, p)
      else
        let goal = (default_State c)\<lparr>st_x := gx, st_y := gy, st_theta := gtheta\<rparr>;
            leftFoot = getFootPosition c p goal LEFT;
            rightFoot = getFootPosition c p goal RIGHT
        in if env_occupied c (ivPlannerEnvironmentPtr p) leftFoot \<or>
              env_occupied c (ivPlannerEnvironmentPtr p) rightFoot
           then (False, p)
           else (True, p\<lparr>ivGoalFootLeft := leftFoot, ivGoalFootRight := rightFoot,
                         ivGoalPoseSetUp := True\<rparr>))"

subsection \<open>Map updates\<close>

definition max_foot_radius :: "('env, 'pl) FootstepPlanner \<Rightarrow> GridMap2D \<Rightarrow> bound" where
  "max_foot_radius p m =
     (let reach = sqrt ((\<bar>ivOriginFootShiftX p\<bar> + ivFootsizeX p / 2)\<^sup>2 +
                        (\<bar>ivOriginFootShiftY p\<bar> + ivFootsizeY p / 2)\<^sup>2)
      in if getResolution m = 0 then (if reach = 0 then Unordered else Unbounded)
         else Within (reach / getResolution m))"

text \<open>
  The distance map of the inverted difference mask, thresholded: a pixel is 255 where its
  distance is at most the radius and 0 elsewhere.
\<close>

definition inflate :: "Mat \<Rightarrow> bound \<Rightarrow> Mat" where
  "inflate inverted r =
     \<lparr>mat_rows = mat_rows inverted, mat_cols = mat_cols inverted,
      px = (\<lambda>i j. if le_bound (distanceTransform inverted i j) r then 255 else 0)\<rparr>"

definition changed_cells_mask ::
  "('env, 'pl) FootstepPlanner \<Rightarrow> GridMap2D \<Rightarrow> GridMap2D \<Rightarrow> error + Mat" where
  "changed_cells_mask p new old =
     (case bitwise_xor (binaryMap old) (binaryMap new) of
        Inl e \<Rightarrow> Inl e
      | Inr changed \<Rightarrow> Inr (inflate (bitwise_not changed) (max_foot_radius p new)))"

text \<open>
  The loop over the mask: \<open>y\<close> runs over the rows and \<open>x\<close> over the columns, and the
  pixel read is \<^verbatim>\<open>at<uchar>(x, y)\<close>, row \<open>x\<close> and column \<open>y\<close>. A set pixel counts as
  a changed cell and contributes one state per angle bin at the world position of
  \<open>(x, y)\<close>; the leg of these states is the one of a default \<^verbatim>\<open>State\<close>.
\<close>

definition scan_order :: "Mat \<Rightarrow> (nat \<times> nat) list" where
  "scan_order m = concat (map (\<lambda>y. map (\<lambda>x. (x, y)) [0..<mat_cols m]) [0..<mat_rows m])"

definition states_at_cell ::
  "('env, 'pl) collaborators \<Rightarrow> ('env, 'pl) FootstepPlanner \<Rightarrow> GridMap2D \<Rightarrow> nat \<Rightarrow> nat
     \<Rightarrow> State list" where
  "states_at_cell c p m cx cy =
     map (\<lambda>t. (default_State c)
                \<lparr>st_x := fst (mapToWorld c m cx cy), st_y := snd (mapToWorld c m cx cy),
                 st_theta := angle_cell_2_state c (int t) (ivNumAngleBins p)\<rparr>)
         [0..<nat (ivNumAngleBins p)]"

fun scan_changed_cells ::
  "('env, 'pl) collaborators \<Rightarrow> ('env, 'pl) FootstepPlanner \<Rightarrow> GridMap2D \<Rightarrow> Mat
     \<Rightarrow> (nat \<times> nat) list \<Rightarrow> 32 word \<Rightarrow> State list \<Rightarrow> error + (32 word \<times> State list)" where
  "scan_changed_cells c p m changed_cells [] num_changed_cells changed_states =
     Inr (num_changed_cells, changed_states)"
| "scan_changed_cells c p m changed_cells (xy # rest) num_changed_cells changed_states =
     (case mat_at changed_cells (fst xy) (snd xy) of
        Inl e \<Rightarrow> Inl e
      | Inr v \<Rightarrow>
          if v = 255
          then scan_changed_cells c p m changed_cells rest (num_changed_cells + 1)
                 (changed_states @ states_at_cell c p m (fst xy) (snd xy))
          else scan_changed_cells c p m changed_cells rest num_changed_cells changed_states)"

text \<open>
  \<open>resetPlanner\<close> is the pair of statements \<^verbatim>\<open>ivPlannerEnvironmentPtr->reset();
  setupPlanner();\<close> that both reset branches of \<^verbatim>\<open>updateEnvironment\<close> consist of, and
  \<open>changeDetection\<close> is the body of its first branch.
\<close>

definition resetPlanner ::
  "('env, 'pl) collaborators \<Rightarrow> ('env, 'pl) FootstepPlanner \<Rightarrow> ('env, 'pl) FootstepPlanner" where
  "resetPlanner c p =
     setupPlanner c (p\<lparr>ivPlannerEnvironmentPtr := env_reset c (ivPlannerEnvironmentPtr p)\<rparr>)"

definition changeDetection ::
  "('env, 'pl) collaborators \<Rightarrow> ('env, 'pl) FootstepPlanner \<Rightarrow> GridMap2D \<Rightarrow> GridMap2D
     \<Rightarrow> error + ('env, 'pl) FootstepPlanner" where
  "changeDetection c p new old =
     (case changed_cells_mask p new old of
        Inl e \<Rightarrow> Inl e
      | Inr changed_cells \<Rightarrow>
          (case scan_changed_cells c p new changed_cells (scan_order changed_cells) 0 [] of
             Inl e \<Rightarrow> Inl e
           | Inr r \<Rightarrow>
               if fst r = 0 then Inr p
               else if fst r \<le> ivChangedCellsLimit p
               then
                 let found = (if ivForwardSearch p
                              then env_getSuccsOfGridCells c (ivPlannerEnvironmentPtr p) (snd r)
                              else env_getPredsOfGridCells c (ivPlannerEnvironmentPtr p) (snd r))
                 in Inr (p\<lparr>ivPlannerEnvironmentPtr := snd found,
                           ivPlannerPtr := pl_costs_changed c (fst found) (ivPlannerPtr p)\<rparr>)
               else Inr (resetPlanner c p)))"

text \<open>
  \<^verbatim>\<open>updateEnvironment\<close>: the planner type is compared first, so the two map pointers
  are only followed for the \<^verbatim>\<open>ADPlanner\<close>.
\<close>

definition updateEnvironment ::
  "('env, 'pl) collaborators \<Rightarrow> ('env, 'pl) FootstepPlanner \<Rightarrow> GridMap2D option
     \<Rightarrow> error + ('env, 'pl) FootstepPlanner" where
  "updateEnvironment c p old_map =
     (if ivPlannerType p \<noteq> ''ADPlanner'' then Inr (resetPlanner c p)
      else
        case ivMapPtr p of
          None \<Rightarrow> Inl NullPointer
        | Some new \<Rightarrow>
            (case old_map of
               None \<Rightarrow> Inl NullPointer
             | Some old \<Rightarrow>
                 if getResolution new = getResolution old \<and>
                    size_height new = size_height old \<and> size_width new = size_width old
                 then changeDetection c p new old
                 else Inr (resetPlanner c p)))"

subsection \<open>An instance for the examples\<close>

text \<open>
  A small instance of the collaborators, for evaluating the model: the environment state
  is the number of registered ids \<open>0, 1, ...\<close>, the search state is the log of the calls
  made to it, every pose with a negative \<open>x\<close> is occupied, a search returns the ids
  \<open>0\<close> and \<open>1\<close>, and the changed grid cells have the successor id 0 and the predecessor
  id 1. Its arithmetic does not round; the examples compute with small integers and
  their halves, on which double arithmetic does not round either.
\<close>

datatype search_call =
    New string
  | SetStart int
  | SetGoal int
  | Replan
  | CostsChanged "int list"

definition example_world :: "(nat, search_call list) collaborators" where
  "example_world =
     \<lparr>env_setUp = (\<lambda>sl sr gl gr e. e + 2),
      env_InitializeMDPCfg = (\<lambda>e. (0, 1)),
      env_getState = (\<lambda>e i. if 0 \<le> i \<and> i < int e
                             then Some \<lparr>st_x = real_of_int i, st_y = 0, st_theta = 0,
                                        st_leg = LEFT\<rparr>
                             else None),
      env_occupied = (\<lambda>e s. st_x s < 0),
      env_reset = (\<lambda>e. 0),
      env_getSuccsOfGridCells = (\<lambda>e ss. ([0], e)),
      env_getPredsOfGridCells = (\<lambda>e ss. ([1], e)),
      cvMmScale = 1000,
      new_planner = (\<lambda>t e f. [New t]),
      pl_set_start = (\<lambda>i l. (1, l @ [SetStart i])),
      pl_set_goal = (\<lambda>i l. (1, l @ [SetGoal i])),
      pl_set_initialsolution_eps = (\<lambda>e l. l),
      pl_set_search_mode = (\<lambda>b l. l),
      pl_replan = (\<lambda>t e l. ((1, [0, 1], 2000), e, l @ [Replan])),
      pl_costs_changed = (\<lambda>ids l. l @ [CostsChanged ids]),
      mapToWorld = (\<lambda>m cx cy. ((real cx + 1 / 2) * getResolution m,
                                (real cy + 1 / 2) * getResolution m)),
      angle_cell_2_state = (\<lambda>t n. real_of_int t),
      default_State = \<lparr>st_x = 0, st_y = 0, st_theta = 0, st_leg = NOLEG\<rparr>,
      dbl_add = (\<lambda>a b. a + b),
      dbl_mul = (\<lambda>a b. a * b),
      dbl_div = (\<lambda>a b. a / b),
      dbl_sin = sin,
      dbl_cos = cos\<rparr>"

text \<open>
  Maps for the examples, 255 a free pixel and 0 an occupied one: a free map of the given
  size, and the same map with the pixel \<open>(0, 0)\<close> occupied.
\<close>

definition free_map :: "nat \<Rightarrow> nat \<Rightarrow> GridMap2D" where
  "free_map r k =
     \<lparr>getResolution = 1, size_height = int r, size_width = int k,
      binaryMap = \<lparr>mat_rows = r, mat_cols = k, px = (\<lambda>i j. 255)\<rparr>\<rparr>"

definition corner_map :: "nat \<Rightarrow> nat \<Rightarrow> GridMap2D" where
  "corner_map r k =
     \<lparr>getResolution = 1, size_height = int r, size_width = int k,
      binaryMap = \<lparr>mat_rows = r, mat_cols = k,
                   px = (\<lambda>i j. if i = 0 \<and> j = 0 then 0 else 255)\<rparr>\<rparr>"

text \<open>
  A planner with a plan of one step, start and goal set, the \<^verbatim>\<open>ADPlanner\<close>, two angle
  bins, a foot of reach 1 and the given current map and limit of changed cells.
\<close>

definition example_planner ::
  "GridMap2D option \<Rightarrow> 32 word \<Rightarrow> (nat, search_call list) FootstepPlanner" where
  "example_planner m limit =
     \<lparr>ivPlannerEnvironmentPtr = 2,
      ivPlannerPtr = [New ''ADPlanner'', Replan],
      ivMapPtr = m,
      ivPath = [\<lparr>st_x = 0, st_y = 0, st_theta = 0, st_leg = LEFT\<rparr>],
      ivStartFootLeft = \<lparr>st_x = 0, st_y = 1, st_theta = 0, st_leg = LEFT\<rparr>,
      ivStartFootRight = \<lparr>st_x = 0, st_y = - 1, st_theta = 0, st_leg = RIGHT\<rparr>,
      ivGoalFootLeft = \<lparr>st_x = 1, st_y = 1, st_theta = 0, st_leg = LEFT\<rparr>,
      ivGoalFootRight = \<lparr>st_x = 1, st_y = - 1, st_theta = 0, st_leg = RIGHT\<rparr>,
      ivStartPoseSetUp = True,
      ivGoalPoseSetUp = True,
      ivPlanExists = True,
      ivFootSeparation = 2,
      ivOriginFootShiftX = 0,
      ivOriginFootShiftY = 0,
      ivFootsizeX = 2,
      ivFootsizeY = 0,
      ivNumAngleBins = 2,
      ivPlannerType = ''ADPlanner'',
      ivForwardSearch = False,
      ivSearchUntilFirstSolution = False,
      ivInitialEpsilon = 3,
      ivMaxSearchTime = 7,
      ivChangedCellsLimit = limit,
      ivPathCost = 2,
      ivLastMarkerMsgSize = 3\<rparr>"

text \<open>
  The inverted difference masks of the examples: the free map against the map with the
  occupied corner, and a map against itself.
\<close>

definition corner_diff :: "nat \<Rightarrow> nat \<Rightarrow> Mat" where
  "corner_diff r k =
     bitwise_not \<lparr>mat_rows = r, mat_cols = k,
                  px = (\<lambda>i j. 255 XOR (if i = 0 \<and> j = 0 then 0 else 255))\<rparr>"

definition no_diff :: "nat \<Rightarrow> nat \<Rightarrow> Mat" where
  "no_diff r k = bitwise_not \<lparr>mat_rows = r, mat_cols = k, px = (\<lambda>i j. 255 XOR 255)\<rparr>"

text \<open>
  The number of raw changed cells in the spec's words: the cells whose occupancy differs
  between the two bitmaps.
\<close>

definition raw_changed_cells :: "Mat \<Rightarrow> Mat \<Rightarrow> nat" where
  "raw_changed_cells a b =
     length (filter (\<lambda>ij. px a (fst ij) (snd ij) \<noteq> px b (fst ij) (snd ij))
               (concat (map (\<lambda>i. map (\<lambda>j. (i, j)) [0..<mat_cols a]) [0..<mat_rows a])))"

text \<open>
  Modelled from the spec: \<^verbatim>\<open>helper.h\<close> is missing, the spec calls \<^verbatim>\<open>int_hash\<close> an
  integer avalanche hash. \<open>avalanche_hash\<close> is the shift-add-xor mix on a signed 32-bit
  key (left shifts wrap, right shifts are arithmetic) that the examples below run with;
  the general statements hold for every hash function.
\<close>

definition avalanche_hash :: "32 word \<Rightarrow> 32 word" where
  "avalanche_hash key0 =
     (let k1 = key0 + push_bit 12 key0;
          k2 = k1 XOR signed_drop_bit 22 k1;
          k3 = k2 + push_bit 4 k2;
          k4 = k3 XOR signed_drop_bit 9 k3;
          k5 = k4 + push_bit 10 k4;
          k6 = k5 XOR signed_drop_bit 2 k5;
          k7 = k6 + push_bit 7 k6;
          k8 = k7 XOR signed_drop_bit 12 k7
      in k8)"

text \<open>
  Modelled from the spec: the declarations of \<^verbatim>\<open>Leg\<close>, \<^verbatim>\<open>state_2_cell\<close> and
  \<^verbatim>\<open>angle_state_2_cell\<close> are missing. The example helper numbers the legs in the order
  \<open>RIGHT\<close>, \<open>LEFT\<close>, \<open>NOLEG\<close> and discretises by \<open>round (v / cell_size)\<close> and by
  \<open>round (theta / (2 * pi / bins)) mod bins\<close>, as the spec's data model says.
\<close>

fun example_leg_2_int :: "Leg \<Rightarrow> 32 word" where
  "example_leg_2_int RIGHT = 0"
| "example_leg_2_int LEFT = 1"
| "example_leg_2_int NOLEG = 2"

definition example_state_2_cell :: "real \<Rightarrow> real \<Rightarrow> 32 word" where
  "example_state_2_cell v cell_size = word_of_int (round (v / cell_size))"

definition example_angle_state_2_cell :: "real \<Rightarrow> 32 word \<Rightarrow> 32 word" where
  "example_angle_state_2_cell t bins =
     word_of_int (round (t / (2 * pi / real_of_int (sint bins))) mod sint bins)"

definition example_helper :: helper where
  "example_helper =
     \<lparr>int_hash = avalanche_hash, leg_2_int = example_leg_2_int,
      state_2_cell = example_state_2_cell, angle_state_2_cell = example_angle_state_2_cell\<rparr>"

text \<open>The sum of the four shifted field hashes, in the spec's words for \<open>combine\<close>.\<close>

definition combine_spec :: "helper \<Rightarrow> 32 word \<Rightarrow> 32 word \<Rightarrow> 32 word \<Rightarrow> Leg \<Rightarrow> 32 word" where
  "combine_spec h cx cy ct l =
     push_bit 3 (int_hash h cx) + push_bit 2 (int_hash h cy) +
     push_bit 1 (int_hash h ct) + int_hash h (leg_2_int h l)"

section \<open>Properties of planning states\<close>

text \<open>
  C1. Two planning states compare equal exactly when their hash tags and their four
  discrete fields agree; different hash tags alone make them unequal; \<^verbatim>\<open>operator!=\<close>
  is the negation of \<^verbatim>\<open>operator==\<close>.
\<close>

theorem ps_eq_iff_hash_and_fields:
  "(ps_eq s1 s2 \<longleftrightarrow>
      ivHashTag s1 = ivHashTag s2 \<and> ivX s1 = ivX s2 \<and> ivY s1 = ivY s2 \<and>
      ivTheta s1 = ivTheta s2 \<and> ivLeg s1 = ivLeg s2) \<and>
   (ivHashTag s1 \<noteq> ivHashTag s2 \<longrightarrow> \<not> ps_eq s1 s2 \<and> ps_neq s1 s2) \<and>
   (ps_neq s1 s2 \<longleftrightarrow> \<not> ps_eq s1 s2)"
  by (simp add: ps_eq_def ps_neq_def)

theorem ps_eq_iff_hash_and_fields_witness:
  "ivHashTag \<lparr>ivX = 3, ivY = 4, ivTheta = 5, ivLeg = LEFT, ivId = 7, ivHashTag = 1\<rparr> \<noteq>
   ivHashTag \<lparr>ivX = 3, ivY = 4, ivTheta = 5, ivLeg = LEFT, ivId = 7, ivHashTag = 2\<rparr> \<and>
   \<not> ps_eq \<lparr>ivX = 3, ivY = 4, ivTheta = 5, ivLeg = LEFT, ivId = 7, ivHashTag = 1\<rparr>
            \<lparr>ivX = 3, ivY = 4, ivTheta = 5, ivLeg = LEFT, ivId = 7, ivHashTag = 2\<rparr> \<and>
   ps_neq \<lparr>ivX = 3, ivY = 4, ivTheta = 5, ivLeg = LEFT, ivId = 7, ivHashTag = 1\<rparr>
          \<lparr>ivX = 3, ivY = 4, ivTheta = 5, ivLeg = LEFT, ivId = 7, ivHashTag = 2\<rparr>"
  using ps_eq_iff_hash_and_fields
    [of "\<lparr>ivX = 3, ivY = 4, ivTheta = 5, ivLeg = LEFT, ivId = 7, ivHashTag = 1\<rparr>"
        "\<lparr>ivX = 3, ivY = 4, ivTheta = 5, ivLeg = LEFT, ivId = 7, ivHashTag = 2\<rparr>"]
  by simp

subsection \<open>Evaluating the example hash\<close>

lemma example_tag_x1:
  "avalanche_hash (push_bit 3 (avalanche_hash 1) + push_bit 2 (avalanche_hash 0) +
                   push_bit 1 (avalanche_hash 0) + avalanche_hash 0) mod 65536 = 35066"
  by code_simp

lemma example_sum_x1:
  "(push_bit 3 (avalanche_hash 1) + push_bit 2 (avalanche_hash 0) +
    push_bit 1 (avalanche_hash 0) + avalanche_hash 0) mod 65536 = 56760"
  by code_simp

lemma example_tag_left:
  "avalanche_hash (push_bit 3 (avalanche_hash 0) + push_bit 2 (avalanche_hash 0) +
                   push_bit 1 (avalanche_hash 0) + avalanche_hash 1) mod 65536 = 56165"
  by code_simp

lemma calculateHashTag_example_x1:
  "calculateHashTag example_helper 1 0 0 RIGHT 65536 = Inr 35066"
  by (simp only: calculateHashTag_def example_helper_def helper.select_convs
      example_leg_2_int.simps example_tag_x1) simp

lemma combine_spec_example_x1: "combine_spec example_helper 1 0 0 RIGHT mod 65536 = 56760"
  by (simp only: combine_spec_def example_helper_def helper.select_convs
      example_leg_2_int.simps example_sum_x1)

lemma calculateHashTag_example_left:
  "calculateHashTag example_helper 0 0 0 LEFT 65536 = Inr 56165"
  by (simp only: calculateHashTag_def example_helper_def helper.select_convs
      example_leg_2_int.simps example_tag_left) simp

lemma hashed_combine_example_x1:
  "int_hash example_helper (combine_spec example_helper 1 0 0 RIGHT) mod 65536 = 35066"
  by (simp only: combine_spec_def example_helper_def helper.select_convs
      example_leg_2_int.simps example_tag_x1)

lemma hashed_combine_example_left:
  "int_hash example_helper (combine_spec example_helper 0 0 0 LEFT) mod 65536 = 56165"
  by (simp only: combine_spec_def example_helper_def helper.select_convs
      example_leg_2_int.simps example_tag_left)

lemma example_discretise_origin:
  "state_2_cell example_helper 0 (1 / 100) = 0"
  "angle_state_2_cell example_helper 0 64 = 0"
  by (simp_all add: example_helper_def example_state_2_cell_def
      example_angle_state_2_cell_def)

lemma PlanningState_of_cells_example_x1:
  "PlanningState_of_cells example_helper 0 1 0 0 RIGHT (1 / 100) 64 65536 =
     Inr \<lparr>ivX = 1, ivY = 0, ivTheta = 0, ivLeg = RIGHT, ivId = 0, ivHashTag = 35066\<rparr>"
  by (simp add: PlanningState_of_cells_def calculateHashTag_example_x1)

lemma PlanningState_of_State_example_left:
  "PlanningState_of_State example_helper
     \<lparr>st_x = 0, st_y = 0, st_theta = 0, st_leg = LEFT\<rparr> (1 / 100) 64 65536 =
     Inr \<lparr>ivX = 0, ivY = 0, ivTheta = 0, ivLeg = LEFT, ivId = - 1, ivHashTag = 56165\<rparr>"
  by (simp add: PlanningState_of_State_def example_discretise_origin
      calculateHashTag_example_left)

text \<open>
  C5, as stated: the hash tag is the sum of the shifted field hashes modulo
  \<^verbatim>\<open>max_hash_size\<close>. It is not, at the cell \<open>(1, 0, 0)\<close> of the right leg with 65536
  buckets: the tag is 35066, the sum modulo 65536 is 56760.
\<close>

theorem hashTag_plain_combine_counterexample:
  "PlanningState_of_cells example_helper 0 1 0 0 RIGHT (1 / 100) 64 65536 =
     Inr \<lparr>ivX = 1, ivY = 0, ivTheta = 0, ivLeg = RIGHT, ivId = 0, ivHashTag = 35066\<rparr> \<and>
   combine_spec example_helper 1 0 0 RIGHT mod 65536 = 56760 \<and>
   ivHashTag \<lparr>ivX = 1, ivY = 0, ivTheta = 0, ivLeg = RIGHT, ivId = 0, ivHashTag = 35066\<rparr> \<noteq>
     combine_spec example_helper 1 0 0 RIGHT mod 65536"
  by (simp add: PlanningState_of_cells_example_x1 combine_spec_example_x1)

text \<open>
  C5, amended: the hash tag of every constructed planning state is the integer hash of
  the sum of the shifted field hashes, modulo \<^verbatim>\<open>max_hash_size\<close>; the sum goes through
  the hash once more before the modulus. A copy keeps the tag.
\<close>

theorem hashTag_is_hashed_combine:
  "(PlanningState_of_cells h stale cx cy ct l cell_size num_angle_bins max_hash_size = Inr s \<longrightarrow>
      ivHashTag s =
        int_hash h (combine_spec h (ivX s) (ivY s) (ivTheta s) (ivLeg s)) mod max_hash_size) \<and>
   (PlanningState_of_State h st cell_size num_angle_bins max_hash_size = Inr s' \<longrightarrow>
      ivHashTag s' =
        int_hash h (combine_spec h (ivX s') (ivY s') (ivTheta s') (ivLeg s')) mod max_hash_size) \<and>
   ivHashTag (PlanningState_copy s'') = ivHashTag s''"
  by (auto simp: PlanningState_of_cells_def PlanningState_of_State_def PlanningState_copy_def
      calculateHashTag_def combine_spec_def Let_def split: if_splits)

theorem hashTag_is_hashed_combine_witness:
  "PlanningState_of_cells example_helper 0 1 0 0 RIGHT (1 / 100) 64 65536 =
     Inr \<lparr>ivX = 1, ivY = 0, ivTheta = 0, ivLeg = RIGHT, ivId = 0, ivHashTag = 35066\<rparr> \<and>
   PlanningState_of_State example_helper
     \<lparr>st_x = 0, st_y = 0, st_theta = 0, st_leg = LEFT\<rparr> (1 / 100) 64 65536 =
     Inr \<lparr>ivX = 0, ivY = 0, ivTheta = 0, ivLeg = LEFT, ivId = - 1, ivHashTag = 56165\<rparr> \<and>
   (35066 :: 32 word) =
     int_hash example_helper (combine_spec example_helper 1 0 0 RIGHT) mod 65536 \<and>
   (56165 :: 32 word) =
     int_hash example_helper (combine_spec example_helper 0 0 0 LEFT) mod 65536"
  using hashTag_is_hashed_combine
    [of example_helper 0 1 0 0 RIGHT "1 / 100" 64 65536
        "\<lparr>ivX = 1, ivY = 0, ivTheta = 0, ivLeg = RIGHT, ivId = 0, ivHashTag = 35066\<rparr>"
        "\<lparr>st_x = 0, st_y = 0, st_theta = 0, st_leg = LEFT\<rparr>"
        "\<lparr>ivX = 0, ivY = 0, ivTheta = 0, ivLeg = LEFT, ivId = - 1, ivHashTag = 56165\<rparr>"]
  by (simp add: PlanningState_of_cells_example_x1 PlanningState_of_State_example_left)

lemma PlanningState_of_State_id:
  "PlanningState_of_State h st cell_size num_angle_bins max_hash_size = Inr s \<Longrightarrow> ivId s = - 1"
  by (auto simp: PlanningState_of_State_def Let_def split: sum.splits)

lemma PlanningState_of_cells_id:
  "PlanningState_of_cells h stale cx cy ct l cell_size num_angle_bins max_hash_size = Inr s \<Longrightarrow>
   ivId s = stale"
  by (auto simp: PlanningState_of_cells_def split: sum.splits)

text \<open>
  C6. A planning state fresh from a constructor should carry the id \<open>-1\<close>. The
  constructor from a \<^verbatim>\<open>State\<close> sets it (\<open>PlanningState_of_State_id\<close>); the constructor
  from integer fields does not initialise \<^verbatim>\<open>ivId\<close> (\<open>PlanningState_of_cells_id\<close>): built
  in storage that held 0, the state for the cell \<open>(1, 0, 0)\<close> of the right leg has the
  id 0.
\<close>

theorem PlanningState_of_cells_id_stale:
  "PlanningState_of_cells example_helper 0 1 0 0 RIGHT (1 / 100) 64 65536 =
     Inr \<lparr>ivX = 1, ivY = 0, ivTheta = 0, ivLeg = RIGHT, ivId = 0, ivHashTag = 35066\<rparr> \<and>
   ivId \<lparr>ivX = 1, ivY = 0, ivTheta = 0, ivLeg = RIGHT, ivId = 0, ivHashTag = 35066\<rparr> \<noteq> - 1"
  by (simp add: PlanningState_of_cells_example_x1)

text \<open>
  C10, as stated: every call of the constructor from raw doubles fails the assertion of
  its body, and only the constructors from a \<^verbatim>\<open>State\<close> and from integer fields can
  complete. With no buckets (\<^verbatim>\<open>max_hash_size\<close> 0) the call does not get to the assertion,
  the hash tag among its member initialisers divides by zero; and the copy constructor
  completes as well.
\<close>

theorem PlanningState_of_doubles_counterexample:
  "PlanningState_of_doubles example_helper 0 0 0 LEFT (1 / 100) 64 0 = Inl DivisionByZero \<and>
   PlanningState_of_doubles example_helper 0 0 0 LEFT (1 / 100) 64 0 \<noteq> Inl AssertionFailed \<and>
   PlanningState_copy
     \<lparr>ivX = 0, ivY = 0, ivTheta = 0, ivLeg = LEFT, ivId = - 1, ivHashTag = 56165\<rparr> =
     \<lparr>ivX = 0, ivY = 0, ivTheta = 0, ivLeg = LEFT, ivId = - 1, ivHashTag = 56165\<rparr>"
  by (simp add: PlanningState_of_doubles_def calculateHashTag_def PlanningState_copy_def)

text \<open>
  C10, amended: no call of the constructor from raw doubles returns a planning state.
  With at least one bucket the assertion of its body fails, whatever the other
  arguments; with none the hash tag divides by zero before the body. The constructors
  from a \<^verbatim>\<open>State\<close> and from integer fields return a state exactly when there is at least
  one bucket, and a copy always returns the state copied.
\<close>

theorem PlanningState_of_doubles_never_returns:
  "(\<forall>s. PlanningState_of_doubles h wx wy wt l cell_size num_angle_bins max_hash_size \<noteq> Inr s) \<and>
   PlanningState_of_doubles h wx wy wt l cell_size num_angle_bins max_hash_size =
     (if max_hash_size = 0 then Inl DivisionByZero else Inl AssertionFailed) \<and>
   (\<exists>s. PlanningState_of_State h st cell_size num_angle_bins max_hash_size = Inr s) =
     (max_hash_size \<noteq> 0) \<and>
   (\<exists>s. PlanningState_of_cells h stale cx cy ct l cell_size num_angle_bins max_hash_size =
          Inr s) = (max_hash_size \<noteq> 0) \<and>
   PlanningState_copy s' = s'"
  by (simp add: PlanningState_of_doubles_def PlanningState_of_State_def
      PlanningState_of_cells_def PlanningState_copy_def calculateHashTag_def Let_def)

theorem PlanningState_of_doubles_never_returns_witness:
  "PlanningState_of_doubles example_helper 0 0 0 LEFT (1 / 100) 64 65536 = Inl AssertionFailed \<and>
   PlanningState_of_doubles example_helper 0 0 0 LEFT (1 / 100) 64 0 = Inl DivisionByZero \<and>
   (\<exists>s. PlanningState_of_State example_helper
          \<lparr>st_x = 0, st_y = 0, st_theta = 0, st_leg = LEFT\<rparr> (1 / 100) 64 65536 = Inr s) \<and>
   (\<exists>s. PlanningState_of_cells example_helper 0 1 0 0 LEFT (1 / 100) 64 65536 = Inr s) \<and>
   (\<forall>s. PlanningState_of_State example_helper
          \<lparr>st_x = 0, st_y = 0, st_theta = 0, st_leg = LEFT\<rparr> (1 / 100) 64 0 \<noteq> Inr s)"
  using PlanningState_of_doubles_never_returns
    [where h = example_helper and wx = 0 and wy = 0 and wt = 0 and l = LEFT
       and cell_size = "1 / 100" and num_angle_bins = 64 and max_hash_size = 65536
       and st = "\<lparr>st_x = 0, st_y = 0, st_theta = 0, st_leg = LEFT\<rparr>"
       and stale = 0 and cx = 1 and cy = 0 and ct = 0]
    PlanningState_of_doubles_never_returns
    [where h = example_helper and wx = 0 and wy = 0 and wt = 0 and l = LEFT
       and cell_size = "1 / 100" and num_angle_bins = 64 and max_hash_size = 0
       and st = "\<lparr>st_x = 0, st_y = 0, st_theta = 0, st_leg = LEFT\<rparr>"
       and stale = 0 and cx = 1 and cy = 0 and ct = 0]
  by simp

section \<open>Properties of the planner\<close>

subsection \<open>Loops and masks\<close>

lemma extract_loop_unresolved:
  "\<exists>i\<in>set ids. env_getState c e i = None \<Longrightarrow> extract_loop c e ids path = (False, [])"
  by (induction ids arbitrary: path) (auto split: option.splits)

lemma extract_loop_resolved:
  "\<forall>i\<in>set ids. env_getState c e i \<noteq> None \<Longrightarrow>
   extract_loop c e ids path = (True, path @ map (\<lambda>i. the (env_getState c e i)) ids)"
  by (induction ids arbitrary: path) (auto split: option.splits)

lemma fold_min_le_iff:
  fixes d :: real
  shows "fold min ds d \<le> r \<longleftrightarrow> (\<exists>v\<in>set (d # ds). v \<le> r)"
  by (induction ds arbitrary: d) (auto simp: min_le_iff_disj)

lemma le_bound_distanceTransform:
  "le_bound (distanceTransform m i j) (Within r) \<longleftrightarrow>
     (\<exists>z\<in>set (zero_pixels m). euclid (i, j) z \<le> r)"
proof (cases "zero_pixels m")
  case Nil
  then show ?thesis by (simp add: le_bound_def distanceTransform_def)
next
  case (Cons z zs)
  then show ?thesis
    by (simp add: le_bound_def distanceTransform_def fold_min_le_iff)
qed

lemma scan_in_range:
  "\<forall>xy\<in>set cells. fst xy < mat_rows cc \<and> snd xy < mat_cols cc \<Longrightarrow>
   scan_changed_cells c p m cc cells n states =
     Inr (n + of_nat (length (filter (\<lambda>xy. px cc (fst xy) (snd xy) = 255) cells)),
          states @ concat (map (\<lambda>xy. states_at_cell c p m (fst xy) (snd xy))
                            (filter (\<lambda>xy. px cc (fst xy) (snd xy) = 255) cells)))"
  by (induction cells arbitrary: n states) (auto simp: mat_at_def)

lemma scan_out_of_range:
  "\<exists>xy\<in>set cells. \<not> (fst xy < mat_rows cc \<and> snd xy < mat_cols cc) \<Longrightarrow>
   scan_changed_cells c p m cc cells n states = Inl MatIndexOutOfRange"
  by (induction cells arbitrary: n states) (auto simp: mat_at_def split: sum.splits)

lemma set_scan_order: "set (scan_order m) = {(x, y). x < mat_cols m \<and> y < mat_rows m}"
  by (auto simp: scan_order_def)

lemma scan_square:
  assumes "mat_rows cc = mat_cols cc"
  shows "scan_changed_cells c p m cc (scan_order cc) 0 [] =
     Inr (of_nat (length (filter (\<lambda>xy. px cc (fst xy) (snd xy) = 255) (scan_order cc))),
          concat (map (\<lambda>xy. states_at_cell c p m (fst xy) (snd xy))
                   (filter (\<lambda>xy. px cc (fst xy) (snd xy) = 255) (scan_order cc))))"
proof -
  have "\<forall>xy\<in>set (scan_order cc). fst xy < mat_rows cc \<and> snd xy < mat_cols cc"
    using assms by (auto simp: set_scan_order)
  then show ?thesis
    by (simp add: scan_in_range)
qed

lemma scan_not_square:
  assumes "mat_rows cc \<noteq> mat_cols cc" "0 < mat_rows cc" "0 < mat_cols cc"
  shows "scan_changed_cells c p m cc (scan_order cc) n states = Inl MatIndexOutOfRange"
proof -
  have "(mat_rows cc, 0) \<in> set (scan_order cc) \<or> (0, mat_cols cc) \<in> set (scan_order cc)"
    using assms by (auto simp: set_scan_order)
  then have "\<exists>xy\<in>set (scan_order cc). \<not> (fst xy < mat_rows cc \<and> snd xy < mat_cols cc)"
  proof
    assume a: "(mat_rows cc, 0) \<in> set (scan_order cc)"
    show ?thesis by (rule bexI [OF _ a]) simp
  next
    assume a: "(0, mat_cols cc) \<in> set (scan_order cc)"
    show ?thesis by (rule bexI [OF _ a]) simp
  qed
  then show ?thesis
    by (rule scan_out_of_range)
qed

lemma length_states_at_cell: "length (states_at_cell c p m cx cy) = nat (ivNumAngleBins p)"
  by (simp add: states_at_cell_def)

lemma changeDetection_square:
  assumes "changed_cells_mask p new old = Inr cc" "mat_rows cc = mat_cols cc"
  shows "changeDetection c p new old =
     (let cells = filter (\<lambda>xy. px cc (fst xy) (snd xy) = 255) (scan_order cc);
          n = (of_nat (length cells) :: 32 word);
          changed_states = concat (map (\<lambda>xy. states_at_cell c p new (fst xy) (snd xy)) cells);
          found = (if ivForwardSearch p
                   then env_getSuccsOfGridCells c (ivPlannerEnvironmentPtr p) changed_states
                   else env_getPredsOfGridCells c (ivPlannerEnvironmentPtr p) changed_states)
      in if n = 0 then Inr p
         else if n \<le> ivChangedCellsLimit p
         then Inr (p\<lparr>ivPlannerEnvironmentPtr := snd found,
                     ivPlannerPtr := pl_costs_changed c (fst found) (ivPlannerPtr p)\<rparr>)
         else Inr (resetPlanner c p))"
  using assms by (simp add: changeDetection_def scan_square Let_def)

lemma changeDetection_not_square:
  assumes "changed_cells_mask p new old = Inr cc" "mat_rows cc \<noteq> mat_cols cc"
    "0 < mat_rows cc" "0 < mat_cols cc"
  shows "changeDetection c p new old = Inl MatIndexOutOfRange"
  using assms by (simp add: changeDetection_def scan_not_square)

lemma upt_2: "[0..<2] = [0, Suc 0]"
  by (simp add: numeral_2_eq_2)

lemma example_radius: "max_foot_radius (example_planner m l) (corner_map r k) = Within 1"
  by (simp add: max_foot_radius_def example_planner_def corner_map_def Let_def)

lemma example_radius_free: "max_foot_radius (example_planner m l) (free_map r k) = Within 1"
  by (simp add: max_foot_radius_def example_planner_def free_map_def Let_def)


lemma px_inflate_Within:
  "px (inflate inverted (Within r)) i j =
     (if \<exists>z\<in>set (zero_pixels inverted). euclid (i, j) z \<le> r then 255 else 0)"
  by (simp add: inflate_def le_bound_distanceTransform)

lemma example_mask_corner:
  "changed_cells_mask (example_planner m l) (corner_map r k) (free_map r k) =
     Inr (inflate (corner_diff r k) (Within 1))"
  by (simp only: changed_cells_mask_def example_radius)
     (simp add: bitwise_xor_def corner_map_def free_map_def corner_diff_def)

lemma example_mask_same:
  "changed_cells_mask (example_planner m l) (free_map r k) (free_map r k) =
     Inr (inflate (no_diff r k) (Within 1))"
  by (simp only: changed_cells_mask_def example_radius_free)
     (simp add: bitwise_xor_def free_map_def no_diff_def)

lemma zero_pixels_corner_2: "zero_pixels (corner_diff 2 2) = [(0, 0)]"
  by (simp add: zero_pixels_def corner_diff_def bitwise_not_def upt_2)

lemma zero_pixels_no_diff_2: "zero_pixels (no_diff 2 2) = []"
  by (simp add: zero_pixels_def no_diff_def bitwise_not_def upt_2)

lemma scan_order_inflate_2:
  "mat_rows mk = 2 \<Longrightarrow> mat_cols mk = 2 \<Longrightarrow>
   scan_order (inflate mk b) = [(0, 0), (Suc 0, 0), (0, Suc 0), (Suc 0, Suc 0)]"
  by (simp add: scan_order_def inflate_def upt_2)

lemma dims_corner_diff: "mat_rows (corner_diff r k) = r" "mat_cols (corner_diff r k) = k"
  by (simp_all add: corner_diff_def bitwise_not_def)

lemma dims_no_diff: "mat_rows (no_diff r k) = r" "mat_cols (no_diff r k) = k"
  by (simp_all add: no_diff_def bitwise_not_def)

lemma dims_inflate: "mat_rows (inflate mk b) = mat_rows mk" "mat_cols (inflate mk b) = mat_cols mk"
  by (simp_all add: inflate_def)

lemma set_cells_corner_2:
  "filter (\<lambda>xy. px (inflate (corner_diff 2 2) (Within 1)) (fst xy) (snd xy) = 255)
     (scan_order (inflate (corner_diff 2 2) (Within 1))) = [(0, 0), (Suc 0, 0), (0, Suc 0)]"
  by (simp add: scan_order_inflate_2 dims_corner_diff px_inflate_Within zero_pixels_corner_2
      euclid_def)

lemma set_cells_no_diff_2:
  "filter (\<lambda>xy. px (inflate (no_diff 2 2) (Within 1)) (fst xy) (snd xy) = 255)
     (scan_order (inflate (no_diff 2 2) (Within 1))) = []"
  by (simp add: scan_order_inflate_2 dims_no_diff px_inflate_Within zero_pixels_no_diff_2)

lemma raw_changed_example:
  "raw_changed_cells (binaryMap (free_map 2 2)) (binaryMap (corner_map 2 2)) = 1"
  by (simp add: raw_changed_cells_def free_map_def corner_map_def upt_2)

lemma updateEnvironment_compatible:
  "ivPlannerType p = ''ADPlanner'' \<Longrightarrow> ivMapPtr p = Some new \<Longrightarrow>
   getResolution new = getResolution old \<Longrightarrow> size_height new = size_height old \<Longrightarrow>
   size_width new = size_width old \<Longrightarrow>
   updateEnvironment c p (Some old) = changeDetection c p new old"
  by (simp add: updateEnvironment_def)

lemma example_planner_fields:
  "ivPlannerType (example_planner m l) = ''ADPlanner''"
  "ivMapPtr (example_planner m l) = m"
  "ivChangedCellsLimit (example_planner m l) = l"
  "ivForwardSearch (example_planner m l) = False"
  "ivPlannerEnvironmentPtr (example_planner m l) = 2"
  "ivPlannerPtr (example_planner m l) = [New ''ADPlanner'', Replan]"
  by (simp_all add: example_planner_def)

lemma example_maps_compatible:
  "getResolution (corner_map r k) = getResolution (free_map r k)"
  "size_height (corner_map r k) = size_height (free_map r k)"
  "size_width (corner_map r k) = size_width (free_map r k)"
  by (simp_all add: corner_map_def free_map_def)

lemma example_world_calls:
  "env_getPredsOfGridCells example_world e ss = ([1], e)"
  "pl_costs_changed example_world ids l = l @ [CostsChanged ids]"
  "env_reset example_world e = 0"
  "new_planner example_world t e f = [New t]"
  by (simp_all add: example_world_def)

lemma resetPlanner_example:
  "ivPlannerPtr (resetPlanner example_world (example_planner m l)) = [New ''ADPlanner'']"
  "ivPlannerEnvironmentPtr (resetPlanner example_world (example_planner m l)) = 0"
  by (simp_all add: resetPlanner_def setupPlanner_def example_planner_fields example_world_calls)

lemma zero_pixels_same:
  "zero_pixels (bitwise_not \<lparr>mat_rows = r, mat_cols = k, px = (\<lambda>i j. 0)\<rparr>) = []"
  by (simp add: zero_pixels_def bitwise_not_def)

lemma identical_square_bitmaps_no_change:
  assumes "binaryMap new = binaryMap old"
    and "mat_rows (binaryMap old) = mat_cols (binaryMap old)"
    and "max_foot_radius p new = Within r"
  shows "\<exists>cc. changed_cells_mask p new old = Inr cc \<and>
           scan_changed_cells c p new cc (scan_order cc) 0 [] = Inr (0, [])"
proof -
  let ?cc = "inflate (bitwise_not \<lparr>mat_rows = mat_rows (binaryMap old),
                                    mat_cols = mat_cols (binaryMap old),
                                    px = (\<lambda>i j. px (binaryMap old) i j XOR
                                                 px (binaryMap old) i j)\<rparr>) (Within r)"
  have m: "changed_cells_mask p new old = Inr ?cc"
    using assms by (simp add: changed_cells_mask_def bitwise_xor_def)
  have sq: "mat_rows ?cc = mat_cols ?cc"
    using assms by (simp add: inflate_def bitwise_not_def)
  have none: "filter (\<lambda>xy. px ?cc (fst xy) (snd xy) = 255) (scan_order ?cc) = []"
    by (simp add: px_inflate_Within zero_pixels_same)
  have "scan_changed_cells c p new ?cc (scan_order ?cc) 0 [] = Inr (0, [])"
    by (simp only: scan_square [OF sq] none) simp
  with m show ?thesis by blast
qed

lemma length_changed_states:
  "length (concat (map (\<lambda>xy. states_at_cell c p m (fst xy) (snd xy)) cells)) =
     nat (ivNumAngleBins p) * length cells"
  by (induction cells) (simp_all add: length_states_at_cell)

lemma plan_example_searches:
  "fst (plan example_world (example_planner (Some (free_map 2 2)) 5)) = True \<and>
   ivPlannerPtr (snd (plan example_world (example_planner (Some (free_map 2 2)) 5))) =
     [New ''ADPlanner'', SetStart 0, SetGoal 1, Replan] \<and>
   ivPath (snd (plan example_world (example_planner (Some (free_map 2 2)) 5))) =
     [\<lparr>st_x = 0, st_y = 0, st_theta = 0, st_leg = LEFT\<rparr>,
      \<lparr>st_x = 1, st_y = 0, st_theta = 0, st_leg = LEFT\<rparr>]"
  by (simp add: plan_def run_def setupPlanner_def extractSolution_def
      broadcastFootstepPathVis_def example_planner_def example_world_def Let_def)

lemma example_goal_occupied:
  "env_occupied example_world (ivPlannerEnvironmentPtr (example_planner (Some (free_map 2 2)) 0))
      (getFootPosition example_world (example_planner (Some (free_map 2 2)) 0)
         ((default_State example_world)\<lparr>st_x := - 1, st_y := 0, st_theta := 0\<rparr>) LEFT)"
  by (simp add: example_world_def getFootPosition_def Let_def)

text \<open>
  C2, as stated: when an id of the solution cannot be resolved, the failure is reported
  and the plan extracted before is kept. It is not kept: a planner that holds a one-step
  plan and is given the ids 0 and 5, of which 5 is unknown, ends with an empty path.
\<close>

theorem extractSolution_retains_plan_counterexample:
  "env_getState example_world (ivPlannerEnvironmentPtr (example_planner None 0)) 5 = None \<and>
   ivPath (example_planner None 0) = [\<lparr>st_x = 0, st_y = 0, st_theta = 0, st_leg = LEFT\<rparr>] \<and>
   fst (extractSolution example_world (example_planner None 0) [0, 5]) = False \<and>
   ivPath (snd (extractSolution example_world (example_planner None 0) [0, 5])) = []"
  by (simp add: extractSolution_def Let_def example_planner_def example_world_def)

text \<open>
  C2, amended: when an id of the solution cannot be resolved, \<^verbatim>\<open>extractSolution\<close>
  returns false and leaves the stored path empty, whatever it held: the path is cleared
  on entry and again at the failing id. Nothing else of the planner changes.
\<close>

theorem extractSolution_unresolved_clears_path:
  "\<exists>i\<in>set state_ids. env_getState c (ivPlannerEnvironmentPtr p) i = None \<Longrightarrow>
   extractSolution c p state_ids = (False, p\<lparr>ivPath := []\<rparr>)"
  by (simp add: extractSolution_def Let_def extract_loop_unresolved)

theorem extractSolution_unresolved_clears_path_witness:
  "(\<exists>i\<in>set [0, 5]. env_getState example_world
        (ivPlannerEnvironmentPtr (example_planner None 0)) i = None) \<and>
   extractSolution example_world (example_planner None 0) [0, 5] =
     (False, (example_planner None 0)\<lparr>ivPath := []\<rparr>)"
proof -
  have h: "\<exists>i\<in>set [0, 5]. env_getState example_world
        (ivPlannerEnvironmentPtr (example_planner None 0)) i = None"
    by (simp add: example_planner_def example_world_def)
  show ?thesis
    using h extractSolution_unresolved_clears_path [OF h] by simp
qed

text \<open>
  C4. \<^verbatim>\<open>plan()\<close> and \<^verbatim>\<open>replan()\<close> without a map, or without a start or a goal pose,
  return false and leave the whole planner as it was, environment and search state
  included: nothing of the search is called (with a map and both poses the example
  planner does search, \<open>plan_example_searches\<close>). \<^verbatim>\<open>setGoal\<close> for a goal whose left or
  right footprint is occupied does the same.
\<close>

theorem precondition_failure_untouched:
  "(ivMapPtr p = None \<or> \<not> ivStartPoseSetUp p \<or> \<not> ivGoalPoseSetUp p \<longrightarrow>
      plan c p = (False, p) \<and> replan c p = (False, p)) \<and>
   (env_occupied c (ivPlannerEnvironmentPtr p)
      (getFootPosition c p ((default_State c)\<lparr>st_x := gx, st_y := gy, st_theta := gtheta\<rparr>) LEFT) \<or>
    env_occupied c (ivPlannerEnvironmentPtr p)
      (getFootPosition c p ((default_State c)\<lparr>st_x := gx, st_y := gy, st_theta := gtheta\<rparr>) RIGHT)
    \<longrightarrow> setGoal c p gx gy gtheta = (False, p))"
  by (auto simp: plan_def replan_def setGoal_def Let_def)

theorem precondition_failure_untouched_witness:
  "ivMapPtr ((example_planner None 0)) = None \<and>
   plan example_world (example_planner None 0) = (False, example_planner None 0) \<and>
   replan example_world (example_planner None 0) = (False, example_planner None 0) \<and>
   env_occupied example_world (ivPlannerEnvironmentPtr (example_planner (Some (free_map 2 2)) 0))
      (getFootPosition example_world (example_planner (Some (free_map 2 2)) 0)
         ((default_State example_world)\<lparr>st_x := - 1, st_y := 0, st_theta := 0\<rparr>) LEFT) \<and>
   setGoal example_world (example_planner (Some (free_map 2 2)) 0) (- 1) 0 0 =
     (False, example_planner (Some (free_map 2 2)) 0) \<and>
   \<not> ivStartPoseSetUp ((example_planner (Some (free_map 2 2)) 0)\<lparr>ivStartPoseSetUp := False\<rparr>) \<and>
   plan example_world ((example_planner (Some (free_map 2 2)) 0)\<lparr>ivStartPoseSetUp := False\<rparr>) =
     (False, (example_planner (Some (free_map 2 2)) 0)\<lparr>ivStartPoseSetUp := False\<rparr>)"
proof -
  have m: "ivMapPtr (example_planner None 0) = None"
    by (simp add: example_planner_def)
  have n: "\<not> ivStartPoseSetUp
               ((example_planner (Some (free_map 2 2)) 0)\<lparr>ivStartPoseSetUp := False\<rparr>)"
    by simp
  have e: "plan example_world
             ((example_planner (Some (free_map 2 2)) 0)\<lparr>ivStartPoseSetUp := False\<rparr>) =
           (False, (example_planner (Some (free_map 2 2)) 0)\<lparr>ivStartPoseSetUp := False\<rparr>)"
    using n precondition_failure_untouched
              [where p = "(example_planner (Some (free_map 2 2)) 0)\<lparr>ivStartPoseSetUp := False\<rparr>"
                 and c = example_world]
    by blast
  have a: "plan example_world (example_planner None 0) = (False, example_planner None 0) \<and>
           replan example_world (example_planner None 0) = (False, example_planner None 0)"
    using m precondition_failure_untouched
              [where p = "example_planner None 0" and c = example_world]
    by blast
  have b: "setGoal example_world (example_planner (Some (free_map 2 2)) 0) (- 1) 0 0 =
             (False, example_planner (Some (free_map 2 2)) 0)"
    using example_goal_occupied
      precondition_failure_untouched
        [where p = "example_planner (Some (free_map 2 2)) 0" and c = example_world
           and gx = "- 1" and gy = 0 and gtheta = 0]
    by blast
  from m a b n e example_goal_occupied show ?thesis by blast
qed







text \<open>
  C8. A map update enters change detection exactly when the planner type is
  \<^verbatim>\<open>ADPlanner\<close> and the new map has the resolution, the height and the width of the old
  one. In every other case the result is the reset planner, not an error: the
  environment is reset, the search object is constructed anew for the configured type,
  and no other member changes.
\<close>

theorem updateEnvironment_reset_unless_compatible:
  assumes "ivMapPtr p = Some new"
  shows "(ivPlannerType p = ''ADPlanner'' \<and> getResolution new = getResolution old \<and>
          size_height new = size_height old \<and> size_width new = size_width old \<longrightarrow>
            updateEnvironment c p (Some old) = changeDetection c p new old) \<and>
         (\<not> (ivPlannerType p = ''ADPlanner'' \<and> getResolution new = getResolution old \<and>
             size_height new = size_height old \<and> size_width new = size_width old) \<longrightarrow>
            updateEnvironment c p (Some old) = Inr (resetPlanner c p)) \<and>
         ivPlannerEnvironmentPtr (resetPlanner c p) = env_reset c (ivPlannerEnvironmentPtr p) \<and>
         (ivPlannerType p = ''ARAPlanner'' \<or> ivPlannerType p = ''ADPlanner'' \<or>
          ivPlannerType p = ''RSTARPlanner'' \<longrightarrow>
            ivPlannerPtr (resetPlanner c p) =
              new_planner c (ivPlannerType p) (env_reset c (ivPlannerEnvironmentPtr p))
                (ivForwardSearch p)) \<and>
         resetPlanner c p =
           p\<lparr>ivPlannerEnvironmentPtr := env_reset c (ivPlannerEnvironmentPtr p),
             ivPlannerPtr := ivPlannerPtr (resetPlanner c p)\<rparr>"
  using assms
  by (auto simp: updateEnvironment_def resetPlanner_def setupPlanner_def)

theorem updateEnvironment_reset_unless_compatible_witness:
  "ivMapPtr (example_planner (Some (corner_map 2 2)) 5) = Some (corner_map 2 2) \<and>
   size_height (corner_map 2 2) \<noteq> size_height (free_map 3 3) \<and>
   updateEnvironment example_world (example_planner (Some (corner_map 2 2)) 5)
       (Some (free_map 3 3)) =
     Inr (resetPlanner example_world (example_planner (Some (corner_map 2 2)) 5)) \<and>
   ivPlannerEnvironmentPtr
     (resetPlanner example_world (example_planner (Some (corner_map 2 2)) 5)) = 0 \<and>
   ivPlannerPtr (resetPlanner example_world (example_planner (Some (corner_map 2 2)) 5)) =
     [New ''ADPlanner''] \<and>
   updateEnvironment example_world (example_planner (Some (corner_map 2 2)) 5)
       (Some (free_map 2 2)) =
     changeDetection example_world (example_planner (Some (corner_map 2 2)) 5)
       (corner_map 2 2) (free_map 2 2)"
proof -
  let ?p = "example_planner (Some (corner_map 2 2)) 5"
  have m: "ivMapPtr ?p = Some (corner_map 2 2)"
    by (simp add: example_planner_fields)
  have h: "size_height (corner_map 2 2) \<noteq> size_height (free_map 3 3)"
    by (simp add: corner_map_def free_map_def)
  have a: "updateEnvironment example_world ?p (Some (free_map 3 3)) =
             Inr (resetPlanner example_world ?p)"
    using h updateEnvironment_reset_unless_compatible
              [OF m, where old = "free_map 3 3" and c = example_world]
    by blast
  have b: "updateEnvironment example_world ?p (Some (free_map 2 2)) =
             changeDetection example_world ?p (corner_map 2 2) (free_map 2 2)"
    using updateEnvironment_reset_unless_compatible
              [OF m, where old = "free_map 2 2" and c = example_world]
    by (simp add: example_planner_fields example_maps_compatible)
  show ?thesis
    using m h a b by (simp add: resetPlanner_example)
qed

text \<open>
  C3, as stated: the decision after change detection is taken on the number of cells
  whose occupancy flipped. It is not: the loop counts the set pixels of the inflated
  mask. On a 2 by 2 map whose corner became occupied, with a foot radius of one cell and
  a limit of two changed cells, one cell flipped, three pixels are set in the inflated
  mask, and the planner is reset instead of being notified: the search object is new and
  the environment empty.
\<close>

theorem updateEnvironment_raw_count_counterexample:
  "raw_changed_cells (binaryMap (free_map 2 2)) (binaryMap (corner_map 2 2)) = 1 \<and>
   (1 :: 32 word) \<le> ivChangedCellsLimit (example_planner (Some (corner_map 2 2)) 2) \<and>
   updateEnvironment example_world (example_planner (Some (corner_map 2 2)) 2)
       (Some (free_map 2 2)) =
     Inr (resetPlanner example_world (example_planner (Some (corner_map 2 2)) 2)) \<and>
   ivPlannerPtr (resetPlanner example_world (example_planner (Some (corner_map 2 2)) 2)) =
     [New ''ADPlanner''] \<and>
   ivPlannerEnvironmentPtr
     (resetPlanner example_world (example_planner (Some (corner_map 2 2)) 2)) = 0"
proof -
  let ?p = "example_planner (Some (corner_map 2 2)) 2"
  have u: "updateEnvironment example_world ?p (Some (free_map 2 2)) =
             changeDetection example_world ?p (corner_map 2 2) (free_map 2 2)"
    by (rule updateEnvironment_compatible)
       (simp_all add: example_planner_fields example_maps_compatible)
  have d: "changeDetection example_world ?p (corner_map 2 2) (free_map 2 2) =
             Inr (resetPlanner example_world ?p)"
    using changeDetection_square [OF example_mask_corner, of 2 2 example_world "Some (corner_map 2 2)" 2]
    by (simp add: dims_inflate dims_corner_diff set_cells_corner_2 example_planner_fields)
  show ?thesis
    by (simp add: u d raw_changed_example resetPlanner_example example_planner_fields)
qed

text \<open>
  C3, amended: on a square mask the decision is taken on \<open>n\<close>, the number of set pixels
  of the inflated mask as an \<^verbatim>\<open>unsigned int\<close>. For \<open>n = 0\<close> the planner is returned as
  it was; for \<open>n\<close> up to the limit, the ids found by \<^verbatim>\<open>getSuccsOfGridCells\<close> (forward
  search) or \<^verbatim>\<open>getPredsOfGridCells\<close> (backward search) for the changed states are passed
  to \<^verbatim>\<open>costs_changed\<close>; above the limit the environment is reset and the search object
  constructed anew.
\<close>

theorem updateEnvironment_decides_on_inflated_count:
  assumes "ivPlannerType p = ''ADPlanner''" and "ivMapPtr p = Some new"
    and "getResolution new = getResolution old"
    and "size_height new = size_height old" and "size_width new = size_width old"
    and "changed_cells_mask p new old = Inr cc" and "mat_rows cc = mat_cols cc"
  shows "updateEnvironment c p (Some old) =
     (let cells = filter (\<lambda>xy. px cc (fst xy) (snd xy) = 255) (scan_order cc);
          n = (of_nat (length cells) :: 32 word);
          changed_states = concat (map (\<lambda>xy. states_at_cell c p new (fst xy) (snd xy)) cells);
          found = (if ivForwardSearch p
                   then env_getSuccsOfGridCells c (ivPlannerEnvironmentPtr p) changed_states
                   else env_getPredsOfGridCells c (ivPlannerEnvironmentPtr p) changed_states)
      in if n = 0 then Inr p
         else if n \<le> ivChangedCellsLimit p
         then Inr (p\<lparr>ivPlannerEnvironmentPtr := snd found,
                     ivPlannerPtr := pl_costs_changed c (fst found) (ivPlannerPtr p)\<rparr>)
         else Inr (resetPlanner c p))"
  using assms by (simp only: updateEnvironment_compatible changeDetection_square)

theorem updateEnvironment_decides_on_inflated_count_witness:
  "ivPlannerType (example_planner (Some (corner_map 2 2)) 5) = ''ADPlanner'' \<and>
   ivMapPtr (example_planner (Some (corner_map 2 2)) 5) = Some (corner_map 2 2) \<and>
   changed_cells_mask (example_planner (Some (corner_map 2 2)) 5) (corner_map 2 2) (free_map 2 2) =
     Inr (inflate (corner_diff 2 2) (Within 1)) \<and>
   mat_rows (inflate (corner_diff 2 2) (Within 1)) =
     mat_cols (inflate (corner_diff 2 2) (Within 1)) \<and>
   updateEnvironment example_world (example_planner (Some (corner_map 2 2)) 5)
       (Some (free_map 2 2)) =
     Inr ((example_planner (Some (corner_map 2 2)) 5)
            \<lparr>ivPlannerEnvironmentPtr := 2,
             ivPlannerPtr := [New ''ADPlanner'', Replan, CostsChanged [1]]\<rparr>) \<and>
   updateEnvironment example_world (example_planner (Some (free_map 2 2)) 5)
       (Some (free_map 2 2)) =
     Inr (example_planner (Some (free_map 2 2)) 5) \<and>
   updateEnvironment example_world (example_planner (Some (corner_map 2 2)) 2)
       (Some (free_map 2 2)) =
     Inr (resetPlanner example_world (example_planner (Some (corner_map 2 2)) 2))"
proof -
  let ?p = "example_planner (Some (corner_map 2 2)) 5"
  let ?q = "example_planner (Some (free_map 2 2)) 5"
  let ?r = "example_planner (Some (corner_map 2 2)) 2"
  have sq: "mat_rows (inflate (corner_diff 2 2) (Within 1)) =
            mat_cols (inflate (corner_diff 2 2) (Within 1))"
    by (simp add: dims_inflate dims_corner_diff)
  have sq': "mat_rows (inflate (no_diff 2 2) (Within 1)) =
            mat_cols (inflate (no_diff 2 2) (Within 1))"
    by (simp add: dims_inflate dims_no_diff)
  have a: "updateEnvironment example_world ?p (Some (free_map 2 2)) =
     Inr (?p\<lparr>ivPlannerEnvironmentPtr := 2,
              ivPlannerPtr := [New ''ADPlanner'', Replan, CostsChanged [1]]\<rparr>)"
    using updateEnvironment_decides_on_inflated_count
            [where p = ?p and new = "corner_map 2 2" and old = "free_map 2 2"
               and c = example_world, OF _ _ _ _ _ example_mask_corner sq]
    by (simp add: example_planner_fields example_maps_compatible set_cells_corner_2
        example_world_calls)
  have b: "updateEnvironment example_world ?q (Some (free_map 2 2)) = Inr ?q"
    using updateEnvironment_decides_on_inflated_count
            [where p = ?q and new = "free_map 2 2" and old = "free_map 2 2"
               and c = example_world, OF _ _ _ _ _ example_mask_same sq']
    by (simp add: example_planner_fields set_cells_no_diff_2)
  have d: "updateEnvironment example_world ?r (Some (free_map 2 2)) =
             Inr (resetPlanner example_world ?r)"
    using updateEnvironment_decides_on_inflated_count
            [where p = ?r and new = "corner_map 2 2" and old = "free_map 2 2"
               and c = example_world, OF _ _ _ _ _ example_mask_corner sq]
    by (simp add: example_planner_fields example_maps_compatible set_cells_corner_2)
  show ?thesis
    using a b d sq by (simp add: example_planner_fields example_mask_corner)
qed

text \<open>
  C7. The changed states should be the angle bins of every cell of the inflated
  difference, and none for identical bitmaps. On square masks the loop delivers that
  (\<open>scan_square\<close>, \<open>length_changed_states\<close>, \<open>identical_square_bitmaps_no_change\<close>). Its
  bounds are those of the mask, \<open>y\<close> below the rows and \<open>x\<close> below the columns, but the
  pixel it reads is row \<open>x\<close>, column \<open>y\<close>: on a mask of one row and two columns, for two
  identical free bitmaps as for a changed corner, the read of row 1 is outside the
  matrix.
\<close>

theorem updateEnvironment_one_by_two_fails:
  "updateEnvironment example_world (example_planner (Some (free_map 1 2)) 5000)
       (Some (free_map 1 2)) = Inl MatIndexOutOfRange \<and>
   updateEnvironment example_world (example_planner (Some (corner_map 1 2)) 5000)
       (Some (free_map 1 2)) = Inl MatIndexOutOfRange"
proof -
  let ?p = "example_planner (Some (free_map 1 2)) 5000"
  let ?q = "example_planner (Some (corner_map 1 2)) 5000"
  have a: "updateEnvironment example_world ?p (Some (free_map 1 2)) =
             changeDetection example_world ?p (free_map 1 2) (free_map 1 2)"
    by (rule updateEnvironment_compatible) (simp_all add: example_planner_fields)
  have b: "updateEnvironment example_world ?q (Some (free_map 1 2)) =
             changeDetection example_world ?q (corner_map 1 2) (free_map 1 2)"
    by (rule updateEnvironment_compatible)
       (simp_all add: example_planner_fields example_maps_compatible)
  have a': "changeDetection example_world ?p (free_map 1 2) (free_map 1 2) =
              Inl MatIndexOutOfRange"
    by (rule changeDetection_not_square [OF example_mask_same])
       (simp_all add: dims_inflate dims_no_diff)
  have b': "changeDetection example_world ?q (corner_map 1 2) (free_map 1 2) =
              Inl MatIndexOutOfRange"
    by (rule changeDetection_not_square [OF example_mask_corner])
       (simp_all add: dims_inflate dims_corner_diff)
  show ?thesis
    by (simp only: a b a' b')
qed

end
